theory Spec2Isabelle
  imports Complex_Main
begin

section \<open>Tensors of the numeric library\<close>

text \<open>
  The module \<^verbatim>\<open>hdp_dbm/rbm_units.py\<close> is glue over TensorFlow and NumPy. A tensor is
  modelled as a nested array over its element type; the floating-point element types
  (\<^verbatim>\<open>tf.float32\<close> and its siblings) are idealised as the reals, the integer ones as
  \<open>int\<close>, so rounding and overflow of the machine formats are outside the model.
  A value stands for a tensor of the library when \<open>shape\<close> is defined on it; a
  zero-length axis is representable in the innermost position only (\<open>Array []\<close> has
  shape \<open>[0]\<close>).
\<close>

datatype 'a tensor = is_Scalar: Scalar (un_Scalar: 'a) | Array (elems: "'a tensor list")

definition vec :: "'a list \<Rightarrow> 'a tensor" where
  "vec xs = Array (map Scalar xs)"

definition mat :: "'a list list \<Rightarrow> 'a tensor" where
  "mat rows = Array (map vec rows)"

fun shape :: "'a tensor \<Rightarrow> nat list option" where
  "shape (Scalar v) = Some []"
| "shape (Array []) = Some [0]"
| "shape (Array (t # ts)) =
     (case shape t of
        None \<Rightarrow> None
      | Some s \<Rightarrow>
          if list_all (\<lambda>u. shape u = Some s) ts then Some (Suc (length ts) # s) else None)"

fun rank :: "'a tensor \<Rightarrow> nat" where
  "rank (Scalar v) = 0"
| "rank (Array []) = 1"
| "rank (Array (t # ts)) = Suc (rank t)"

text \<open>The errors a call can end in: the module's own \<^verbatim>\<open>raise NotImplementedError\<close>, and
  the library's rejection of ill-shaped arguments (\<^verbatim>\<open>ValueError\<close> when the graph is built).\<close>

datatype error = NotImplementedError | ValueError

definition and_then :: "'e + 'a \<Rightarrow> ('a \<Rightarrow> 'e + 'b) \<Rightarrow> 'e + 'b" where
  "and_then m k = (case m of Inl e \<Rightarrow> Inl e | Inr v \<Rightarrow> k v)"

subsection \<open>Broadcasting binary operations\<close>

text \<open>Shapes are aligned at their last axis; two axes are compatible when they are equal or
  one of them is 1.\<close>

fun broadcast_dims :: "nat list \<Rightarrow> nat list \<Rightarrow> bool" where
  "broadcast_dims [] t = True"
| "broadcast_dims (m # s) [] = True"
| "broadcast_dims (m # s) (n # t) = ((m = n \<or> m = 1 \<or> n = 1) \<and> broadcast_dims s t)"

definition broadcastable :: "nat list \<Rightarrow> nat list \<Rightarrow> bool" where
  "broadcastable s t = broadcast_dims (rev s) (rev t)"

lemma size_zip_le:
  "(a, b) \<in> set (zip xs ys) \<Longrightarrow> size a + size b \<le> size_list size xs + size_list size ys"
proof -
  assume h: "(a, b) \<in> set (zip xs ys)"
  have "a \<in> set xs" using h by (rule set_zip_leftD)
  then have 1: "size a \<le> size_list size xs" by (rule size_list_estimation') simp
  have "b \<in> set ys" using h by (rule set_zip_rightD)
  then have 2: "size b \<le> size_list size ys" by (rule size_list_estimation') simp
  from 1 2 show ?thesis by simp
qed

lemma size_hd_le: "length xs = Suc 0 \<Longrightarrow> size (hd xs) \<le> size_list size xs"
  by (cases xs) simp_all

lemma size_mem_le: "x \<in> set xs \<Longrightarrow> size x \<le> size_list size xs"
  by (induction xs) auto

function bcast :: "('a \<Rightarrow> 'b \<Rightarrow> 'c) \<Rightarrow> 'a tensor \<Rightarrow> 'b tensor \<Rightarrow> 'c tensor" where
  "bcast f (Scalar a) (Scalar b) = Scalar (f a b)"
| "bcast f (Scalar a) (Array ys) = Array (map (bcast f (Scalar a)) ys)"
| "bcast f (Array xs) (Scalar b) = Array (map (\<lambda>x. bcast f x (Scalar b)) xs)"
| "bcast f (Array xs) (Array ys) =
     (if rank (Array xs) < rank (Array ys) then Array (map (bcast f (Array xs)) ys)
      else if rank (Array ys) < rank (Array xs) then Array (map (\<lambda>x. bcast f x (Array ys)) xs)
      else if length xs = length ys then Array (map (\<lambda>(x, y). bcast f x y) (zip xs ys))
      else if length xs = 1 then Array (map (bcast f (hd xs)) ys)
      else if length ys = 1 then Array (map (\<lambda>x. bcast f x (hd ys)) xs)
      else Array [])"
  by pat_completeness auto
termination
proof (relation "measure (\<lambda>(f, x, y). size x + size y)", goal_cases)
  case 1 show ?case by simp
next
  case (2 f a ys y) then show ?case using size_mem_le [of y ys] by simp
next
  case (3 f xs b x) then show ?case using size_mem_le [of x xs] by simp
next
  case (4 f xs ys y) then show ?case using size_mem_le [of y ys] by simp
next
  case (5 f xs ys x) then show ?case using size_mem_le [of x xs] by simp
next
  case (6 f xs ys p a b) then show ?case using size_zip_le [of a b xs ys] by auto
next
  case (7 f xs ys y) then show ?case using size_mem_le [of y ys] size_hd_le [of xs] by simp
next
  case (8 f xs ys x) then show ?case using size_mem_le [of x xs] size_hd_le [of ys] by simp
qed

definition tf_broadcast ::
  "('a \<Rightarrow> 'b \<Rightarrow> 'c) \<Rightarrow> 'a tensor \<Rightarrow> 'b tensor \<Rightarrow> error + 'c tensor" where
  "tf_broadcast f x y =
     (case shape x of
        None \<Rightarrow> Inl ValueError
      | Some s \<Rightarrow>
          (case shape y of
             None \<Rightarrow> Inl ValueError
           | Some t \<Rightarrow> if broadcastable s t then Inr (bcast f x y) else Inl ValueError))"

definition tf_less :: "real tensor \<Rightarrow> real tensor \<Rightarrow> error + bool tensor" where
  "tf_less = tf_broadcast (\<lambda>a b. a < b)"


definition tf_multiply :: "real tensor \<Rightarrow> real tensor \<Rightarrow> error + real tensor" where
  "tf_multiply = tf_broadcast (\<lambda>a b. a * b)"

definition tf_add :: "real tensor \<Rightarrow> real tensor \<Rightarrow> error + real tensor" where
  "tf_add = tf_broadcast (\<lambda>a b. a + b)"

text \<open>The entrywise combination of two tensors of one shape: what a broadcasting
  operation is specified to compute when no axis has to be stretched.\<close>

function map2_tensor :: "('a \<Rightarrow> 'b \<Rightarrow> 'c) \<Rightarrow> 'a tensor \<Rightarrow> 'b tensor \<Rightarrow> 'c tensor" where
  "map2_tensor f (Scalar a) (Scalar b) = Scalar (f a b)"
| "map2_tensor f (Array xs) (Array ys) = Array (map (\<lambda>(x, y). map2_tensor f x y) (zip xs ys))"
| "map2_tensor f (Scalar a) (Array ys) = Array []"
| "map2_tensor f (Array xs) (Scalar b) = Array []"
  by pat_completeness auto
termination
proof (relation "measure (\<lambda>(f, x, y). size x + size y)", goal_cases)
  case 1 show ?case by simp
next
  case (2 f xs ys p a b) then show ?case using size_zip_le [of a b xs ys] by auto
qed

subsection \<open>Elementwise operations and conversions\<close>

datatype dtype = float16 | float32 | float64

definition tf_sigmoid :: "real tensor \<Rightarrow> real tensor" where
  "tf_sigmoid x = map_tensor (\<lambda>v. 1 / (1 + exp (- v))) x"

text \<open>A cast from booleans or integers to a floating type keeps the value
  (\<^verbatim>\<open>True\<close> is 1, \<^verbatim>\<open>False\<close> is 0).\<close>

definition tf_cast_bool :: "bool tensor \<Rightarrow> dtype \<Rightarrow> real tensor" where
  "tf_cast_bool x d = map_tensor (\<lambda>p. if p then 1 else 0) x"







subsection \<open>Operations along the last axis\<close>

fun along_last :: "('a list \<Rightarrow> 'b tensor) \<Rightarrow> 'a tensor \<Rightarrow> 'b tensor" where
  "along_last g (Scalar v) = g [v]"
| "along_last g (Array ts) =
     (if list_all is_Scalar ts then g (map un_Scalar ts) else Array (map (along_last g) ts))"

definition softmax_list :: "real list \<Rightarrow> real list" where
  "softmax_list xs = map (\<lambda>v. exp v / sum_list (map exp xs)) xs"

text \<open>\<^verbatim>\<open>tf.nn.softmax\<close> normalises along the last axis and rejects a scalar.\<close>

definition tf_softmax :: "real tensor \<Rightarrow> error + real tensor" where
  "tf_softmax x =
     (if is_Scalar x then Inl ValueError else Inr (along_last (\<lambda>vs. vec (softmax_list vs)) x))"







subsection \<open>Packing, transposition, scatter\<close>












subsection \<open>Division and random sources\<close>









section \<open>The unit layers\<close>

text \<open>A layer object holds \<^verbatim>\<open>n_units\<close> and \<^verbatim>\<open>tf_dtype\<close>; a Gaussian layer adds
  \<^verbatim>\<open>sigma\<close>. A method that ends in \<^verbatim>\<open>pass\<close> returns Python's \<^verbatim>\<open>None\<close>, the \<open>None\<close> of
  an option.\<close>

record BaseLayer =
  n_units :: int
  tf_dtype :: dtype

record GaussianLayer = BaseLayer +
  sigma :: "real tensor"

subsection \<open>BaseLayer\<close>




definition BaseLayer_sample ::
  "'a BaseLayer_scheme \<Rightarrow> real tensor \<Rightarrow> real tensor \<Rightarrow> error + real tensor option" where
  "BaseLayer_sample self rand_data means = Inr None"

subsection \<open>BernoulliLayer\<close>


definition BernoulliLayer_activation :: "BaseLayer \<Rightarrow> real tensor \<Rightarrow> real tensor \<Rightarrow> error + real tensor" where
  "BernoulliLayer_activation self x b = Inr (tf_sigmoid x)"


definition BernoulliLayer_sample :: "BaseLayer \<Rightarrow> real tensor \<Rightarrow> real tensor \<Rightarrow> error + real tensor" where
  "BernoulliLayer_sample self rand_data means =
     and_then (tf_less rand_data means) (\<lambda>lt. Inr (tf_cast_bool lt (tf_dtype self)))"

subsection \<open>MultinomialLayer\<close>


definition MultinomialLayer_activation :: "BaseLayer \<Rightarrow> real tensor \<Rightarrow> real tensor \<Rightarrow> error + real tensor" where
  "MultinomialLayer_activation self x b = tf_softmax x"



subsection \<open>GaussianLayer\<close>


definition GaussianLayer_activation ::
  "GaussianLayer \<Rightarrow> real tensor \<Rightarrow> real tensor \<Rightarrow> error + real tensor" where
  "GaussianLayer_activation self x b =
     and_then (tf_multiply x (sigma self)) (\<lambda>xs.
     and_then (tf_multiply b (map_tensor (\<lambda>s. 1 - s) (sigma self))) (\<lambda>bs.
       tf_add xs bs))"


text \<open>\<^verbatim>\<open>GaussianLayer\<close> defines no \<^verbatim>\<open>sample\<close>: the call resolves to the method it inherits.\<close>

definition GaussianLayer_sample ::
  "GaussianLayer \<Rightarrow> real tensor \<Rightarrow> real tensor \<Rightarrow> error + real tensor option" where
  "GaussianLayer_sample self rand_data means = BaseLayer_sample self rand_data means"

subsection \<open>Calls on a layer object\<close>







section \<open>Notions used to state the properties\<close>






section \<open>Properties of the tensor operations\<close>

lemma shape_Array_Some:
  "shape (Array ts) = Some sh \<longleftrightarrow>
     (ts = [] \<and> sh = [0]) \<or>
     (ts \<noteq> [] \<and> (\<exists>s. sh = length ts # s \<and> (\<forall>t \<in> set ts. shape t = Some s)))"
  by (cases ts) (auto simp: list_all_iff split: option.splits)

lemma rank_shape: "shape x = Some s \<Longrightarrow> rank x = length s"
proof (induction x arbitrary: s)
  case (Scalar v) then show ?case by simp
next
  case (Array ts)
  show ?case
  proof (cases ts)
    case Nil with Array.prems show ?thesis by auto
  next
    case (Cons t ts')
    with Array.prems obtain s' where s: "s = length ts # s'" "shape t = Some s'"
      by (auto split: option.splits if_splits)
    have "rank t = length s'" using Array.IH [of t s'] Cons s by simp
    with Cons s show ?thesis by simp
  qed
qed



lemma bcast_Scalar_left: "bcast f (Scalar c) y = map_tensor (f c) y"
  by (induction y) simp_all

lemma bcast_same_shape:
  "shape x = Some s \<Longrightarrow> shape y = Some s \<Longrightarrow> bcast f x y = map2_tensor f x y"
proof (induction x arbitrary: y s)
  case (Scalar v)
  then show ?case by (cases y) (auto simp: shape_Array_Some)
next
  case (Array xs)
  from Array.prems obtain ys where y: "y = Array ys"
    by (cases y) (auto simp: shape_Array_Some)
  have rk: "rank (Array xs) = rank (Array ys)"
    using Array.prems y rank_shape by metis
  have len: "length xs = length ys"
    using Array.prems y by (auto simp: shape_Array_Some)
  have "map (\<lambda>(a, b). bcast f a b) (zip xs ys) = map (\<lambda>(a, b). map2_tensor f a b) (zip xs ys)"
  proof (rule map_cong [OF refl], clarify)
    fix a b assume ab: "(a, b) \<in> set (zip xs ys)"
    then have a: "a \<in> set xs" and b: "b \<in> set ys"
      by (auto dest: set_zip_leftD set_zip_rightD)
    from a Array.prems obtain s' where s': "s = length xs # s'" "\<forall>t\<in>set xs. shape t = Some s'"
      by (auto simp: shape_Array_Some)
    with Array.prems y b have "shape b = Some s'"
      by (auto simp: shape_Array_Some)
    moreover have "shape a = Some s'" using s' a by simp
    ultimately show "bcast f a b = map2_tensor f a b"
      using Array.IH [OF a] by simp
  qed
  with rk len y show ?case by simp
qed

lemma broadcastable_refl: "broadcastable s s"
proof -
  have "broadcast_dims t t" for t by (induction t) simp_all
  then show ?thesis by (simp add: broadcastable_def)
qed



lemma map_tensor_map2_tensor:
  "map_tensor g (map2_tensor f x y) = map2_tensor (\<lambda>a b. g (f a b)) x y"
  by (induction f x y rule: map2_tensor.induct) auto

lemma set_map2_tensor_subset:
  "(\<And>a b. f a b \<in> S) \<Longrightarrow> set_tensor (map2_tensor f x y) \<subseteq> S"
  by (induction f x y rule: map2_tensor.induct) (auto, blast)

lemma shape_map2_tensor:
  "shape x = Some s \<Longrightarrow> shape y = Some s \<Longrightarrow> shape (map2_tensor f x y) = Some s"
proof (induction f x y arbitrary: s rule: map2_tensor.induct)
  case (1 f a b) then show ?case by simp
next
  case (2 f xs ys)
  show ?case
  proof (cases xs)
    case Nil with 2 show ?thesis by auto
  next
    case (Cons x xs')
    then have ne: "xs \<noteq> []" by simp
    with "2.prems"(1) obtain s' where s': "s = length xs # s'" "\<forall>t\<in>set xs. shape t = Some s'"
      by (auto simp: shape_Array_Some)
    with "2.prems"(2) ne have ys: "length ys = length xs" "\<forall>t\<in>set ys. shape t = Some s'"
      by (auto simp: shape_Array_Some)
    let ?zs = "map (\<lambda>(x, y). map2_tensor f x y) (zip xs ys)"
    have "\<forall>t\<in>set ?zs. shape t = Some s'"
    proof
      fix t assume "t \<in> set ?zs"
      then obtain a b where ab: "(a, b) \<in> set (zip xs ys)" "t = map2_tensor f a b" by auto
      then have "a \<in> set xs" "b \<in> set ys" by (auto dest: set_zip_leftD set_zip_rightD)
      with s' ys have "shape a = Some s'" "shape b = Some s'" by auto
      with "2.IH" [OF ab(1) refl] ab show "shape t = Some s'" by simp
    qed
    moreover have "length ?zs = length xs" "?zs \<noteq> []" using ys ne by auto
    ultimately have "shape (Array ?zs) = Some (length xs # s')"
      by (subst shape_Array_Some) auto
    with s' show ?thesis by simp
  qed
next
  case (3 f a ys) then show ?case by (auto simp: shape_Array_Some)
next
  case (4 f xs b) then show ?case by (auto simp: shape_Array_Some)
qed

lemma tf_broadcast_same_shape:
  "shape x = Some s \<Longrightarrow> shape y = Some s \<Longrightarrow> tf_broadcast f x y = Inr (map2_tensor f x y)"
  by (simp add: tf_broadcast_def broadcastable_refl bcast_same_shape)

lemma map2_tensor_map_tensor:
  "map2_tensor f (map_tensor g x) (map_tensor h y) = map2_tensor (\<lambda>a b. f (g a) (h b)) x y"
proof (induction x arbitrary: y)
  case (Scalar v) show ?case by (cases y) simp_all
next
  case (Array xs)
  show ?case
  proof (cases y)
    case (Scalar w) then show ?thesis by simp
  next
    case y: (Array ys)
    have "map (\<lambda>(a, b). map2_tensor f a b) (zip (map (map_tensor g) xs) (map (map_tensor h) ys))
        = map (\<lambda>(a, b). map2_tensor (\<lambda>a b. f (g a) (h b)) a b) (zip xs ys)"
    proof (rule nth_equalityI)
      show "length (map (\<lambda>(a, b). map2_tensor f a b) (zip (map (map_tensor g) xs) (map (map_tensor h) ys)))
          = length (map (\<lambda>(a, b). map2_tensor (\<lambda>a b. f (g a) (h b)) a b) (zip xs ys))"
        by simp
    next
      fix i
      assume "i < length (map (\<lambda>(a, b). map2_tensor f a b) (zip (map (map_tensor g) xs) (map (map_tensor h) ys)))"
      then have i: "i < length xs" "i < length ys" by simp_all
      then have "xs ! i \<in> set xs" by simp
      from Array.IH [OF this, of "ys ! i"] i
      show "map (\<lambda>(a, b). map2_tensor f a b) (zip (map (map_tensor g) xs) (map (map_tensor h) ys)) ! i
          = map (\<lambda>(a, b). map2_tensor (\<lambda>a b. f (g a) (h b)) a b) (zip xs ys) ! i"
        by simp
    qed
    with y show ?thesis by simp
  qed
qed










lemma un_Scalar_map: "map un_Scalar (map Scalar vs) = vs"
  by (rule nth_equalityI) simp_all














subsection \<open>The steps of categorical sampling\<close>



























subsection \<open>Errors of the library are never the module's own\<close>










section \<open>Properties of the layers\<close>

text \<open>C3: for every input \<open>x\<close> and bias \<open>b\<close>, \<^verbatim>\<open>BernoulliLayer.activation(x, b)\<close> is the
  entrywise logistic sigmoid \<open>1 / (1 + exp (- x))\<close> of \<open>x\<close>.\<close>

theorem BernoulliLayer_activation_sigmoid:
  "BernoulliLayer_activation self x b = Inr (map_tensor (\<lambda>v. 1 / (1 + exp (- v))) x)"
  by (simp add: BernoulliLayer_activation_def tf_sigmoid_def)

theorem BernoulliLayer_activation_sigmoid_witness:
  "BernoulliLayer_activation \<lparr>n_units = 2, tf_dtype = float32\<rparr> (vec [0, 1]) (vec [5, 7])
     = Inr (vec [1 / 2, 1 / (1 + exp (- 1))])"
  using BernoulliLayer_activation_sigmoid [of "\<lparr>n_units = 2, tf_dtype = float32\<rparr>" "vec [0, 1]" "vec [5, 7]"]
  by (simp add: vec_def)

text \<open>C7: for \<open>rand_data\<close> and \<open>means\<close> of one shape, \<^verbatim>\<open>BernoulliLayer.sample\<close> returns the
  tensor of that shape whose entry is 1 where \<open>rand_data\<close> is strictly less than \<open>means\<close> and 0
  elsewhere; every entry of it is 0 or 1.\<close>

theorem BernoulliLayer_sample_threshold:
  assumes "shape rand_data = Some s" and "shape means = Some s"
  shows "BernoulliLayer_sample self rand_data means
           = Inr (map2_tensor (\<lambda>r m. if r < m then 1 else 0) rand_data means)
         \<and> shape (map2_tensor (\<lambda>r m. if r < m then 1 else (0::real)) rand_data means) = Some s
         \<and> set_tensor (map2_tensor (\<lambda>r m. if r < m then 1 else (0::real)) rand_data means) \<subseteq> {0, 1}"
proof -
  have "tf_less rand_data means = Inr (map2_tensor (\<lambda>a b. a < b) rand_data means)"
    unfolding tf_less_def using assms by (rule tf_broadcast_same_shape)
  then have "BernoulliLayer_sample self rand_data means
           = Inr (map2_tensor (\<lambda>r m. if r < m then 1 else 0) rand_data means)"
    by (simp add: BernoulliLayer_sample_def and_then_def tf_cast_bool_def map_tensor_map2_tensor)
  moreover have "set_tensor (map2_tensor (\<lambda>r m. if r < m then 1 else (0::real)) rand_data means) \<subseteq> {0, 1}"
    by (rule set_map2_tensor_subset) simp
  ultimately show ?thesis using assms by (simp add: shape_map2_tensor)
qed

theorem BernoulliLayer_sample_threshold_witness:
  "BernoulliLayer_sample \<lparr>n_units = 3, tf_dtype = float32\<rparr>
      (mat [[1/2, 1/2, 1/2], [1/4, 3/4, 0]]) (mat [[1/4, 1/2, 3/4], [1/2, 1/2, 1]])
     = Inr (mat [[0, 0, 1], [1, 0, 1]])"
  using BernoulliLayer_sample_threshold [of "mat [[1/2, 1/2, 1/2], [1/4, 3/4, 0]]" "[2, 3]"
      "mat [[1/4, 1/2, 3/4], [1/2, 1/2, 1]]" "\<lparr>n_units = 3, tf_dtype = float32\<rparr>"]
  by (simp add: mat_def vec_def)

text \<open>C10: the activations of \<^verbatim>\<open>BernoulliLayer\<close> and \<^verbatim>\<open>MultinomialLayer\<close> do not depend on
  the bias argument, while that of \<^verbatim>\<open>GaussianLayer\<close> does: with \<open>sigma = 0\<close> two biases give two
  results.\<close>

theorem activation_bias_independence:
  "BernoulliLayer_activation self x b1 = BernoulliLayer_activation self x b2
   \<and> MultinomialLayer_activation self x b1 = MultinomialLayer_activation self x b2
   \<and> GaussianLayer_activation \<lparr>n_units = 1, tf_dtype = float32, sigma = Scalar 0\<rparr> (Scalar 0) (Scalar 0)
       \<noteq> GaussianLayer_activation \<lparr>n_units = 1, tf_dtype = float32, sigma = Scalar 0\<rparr> (Scalar 0) (Scalar 1)"
  by (simp add: BernoulliLayer_activation_def MultinomialLayer_activation_def
      GaussianLayer_activation_def and_then_def tf_multiply_def tf_add_def tf_broadcast_def
      broadcastable_def)

theorem activation_bias_independence_witness:
  "BernoulliLayer_activation \<lparr>n_units = 1, tf_dtype = float32\<rparr> (vec [0]) (vec [3])
     = BernoulliLayer_activation \<lparr>n_units = 1, tf_dtype = float32\<rparr> (vec [0]) (vec [4])
   \<and> MultinomialLayer_activation \<lparr>n_units = 1, tf_dtype = float32\<rparr> (vec [0]) (vec [3])
     = MultinomialLayer_activation \<lparr>n_units = 1, tf_dtype = float32\<rparr> (vec [0]) (vec [4])"
  using activation_bias_independence [of "\<lparr>n_units = 1, tf_dtype = float32\<rparr>" "vec [0]" "vec [3]" "vec [4]"]
  by simp










text \<open>C1: \<^verbatim>\<open>GaussianLayer\<close> inherits \<^verbatim>\<open>sample\<close> from \<^verbatim>\<open>BaseLayer\<close>, whose body is \<^verbatim>\<open>pass\<close>: the
  call returns \<^verbatim>\<open>None\<close>, not a sample.\<close>

theorem GaussianLayer_sample_returns_None:
  "GaussianLayer_sample \<lparr>n_units = 2, tf_dtype = float32, sigma = Scalar 1\<rparr>
      (mat [[1/2, -1]]) (mat [[0, 3]]) = Inr None"
  by (simp add: GaussianLayer_sample_def BaseLayer_sample_def)








end
